theory Spec2Isabelle
  imports Main "HOL-Library.Word"
begin

section \<open>Cells, builders and slices\<close>

text \<open>
  The payload builders of \<^verbatim>\<open>referral.live.ts\<close> and \<^verbatim>\<open>referral.deploy.ts\<close> write a message
  body into a cell through the builder of the ledger library: a cell holds at most 1023 bits
  and at most 4 references to other cells. A builder is the cell under construction. Every
  \<^verbatim>\<open>throw\<close> of a store operation is a value \<open>Inl e\<close>.
\<close>

datatype cell = Cell (cell_bits: "bool list") (cell_refs: "cell list")

datatype error =
    OutOfRange      \<comment> \<open>storeUint / storeInt: the value does not fit the width\<close>
  | BitOverflow     \<comment> \<open>more than 1023 bits in one cell\<close>
  | RefOverflow     \<comment> \<open>more than 4 references in one cell\<close>
  | NotAnInteger    \<comment> \<open>BigInt of a number that is not an integer (NaN, an infinity)\<close>
  | BadAddress      \<comment> \<open>Address.parse threw\<close>
  | BadAmount       \<comment> \<open>toNano threw\<close>
  | MissingMin      \<comment> \<open>Error("Missing --min <TON>")\<close>
  | PromoteUsage    \<comment> \<open>Error('Usage: promote --memo ...')\<close>
  | UnknownTag      \<comment> \<open>decoding: the leading 32 bits are no known tag\<close>
  | Truncated       \<comment> \<open>decoding: a field cannot be fully read\<close>
  | InvalidString   \<comment> \<open>decoding: a string tail that is not a whole number of bytes\<close>
  | NegativeAmount  \<comment> \<open>decoding: a negative amount\<close>

definition bindE :: "error + 'a \<Rightarrow> ('a \<Rightarrow> error + 'b) \<Rightarrow> error + 'b" where
  "bindE r f = (case r of Inl e \<Rightarrow> Inl e | Inr x \<Rightarrow> f x)"

text \<open>An unsigned value on \<open>n\<close> bits, most significant bit first, and back.\<close>

fun uint_bits :: "nat \<Rightarrow> nat \<Rightarrow> bool list" where
  "uint_bits 0 v = []"
| "uint_bits (Suc n) v = uint_bits n (v div 2) @ [odd v]"

definition bits_uint :: "bool list \<Rightarrow> nat" where
  "bits_uint bs = foldl (\<lambda>a b. 2 * a + (if b then 1 else 0)) 0 bs"

definition bytes_bits :: "string \<Rightarrow> bool list" where
  "bytes_bits s = concat (map (\<lambda>c. uint_bits 8 (of_char c)) s)"

function bits_bytes :: "bool list \<Rightarrow> string" where
  "bits_bytes bs =
     (if length bs < 8 then []
      else char_of (bits_uint (take 8 bs)) # bits_bytes (drop 8 bs))"
  by pat_completeness auto
termination
  by (relation "measure length") auto

definition beginCell :: cell where
  "beginCell = Cell [] []"

definition availableBits :: "cell \<Rightarrow> nat" where
  "availableBits b = 1023 - length (cell_bits b)"

definition writeBits :: "bool list \<Rightarrow> cell \<Rightarrow> error + cell" where
  "writeBits bs b =
     (if length (cell_bits b) + length bs > 1023 then Inl BitOverflow
      else Inr (Cell (cell_bits b @ bs) (cell_refs b)))"

text \<open>\<^verbatim>\<open>storeUint(value, bits)\<close>: the value must lie in \<open>[0, 2^bits)\<close>.\<close>

definition storeUint :: "int \<Rightarrow> nat \<Rightarrow> cell \<Rightarrow> error + cell" where
  "storeUint v n b =
     (if v < 0 \<or> v \<ge> 2 ^ n then Inl OutOfRange
      else writeBits (uint_bits n (nat v)) b)"

text \<open>
  \<^verbatim>\<open>storeInt(value, bits)\<close>: two's complement; the value must lie in
  \<open>[-2^(bits-1), 2^(bits-1))\<close>. The sign bit comes first, then \<open>bits - 1\<close> bits of
  \<open>v\<close>, or of \<open>2^(bits-1) + v\<close> when \<open>v\<close> is negative.
\<close>

definition int_bits :: "nat \<Rightarrow> int \<Rightarrow> bool list" where
  "int_bits n v =
     (let vBits = 2 ^ (n - 1) in
      (v < 0) # uint_bits (n - 1) (nat (if v < 0 then vBits + v else v)))"

definition storeInt :: "int \<Rightarrow> nat \<Rightarrow> cell \<Rightarrow> error + cell" where
  "storeInt v n b =
     (if n = 0 then (if v \<noteq> 0 then Inl OutOfRange else Inr b)
      else if v < - (2 ^ (n - 1)) \<or> v \<ge> 2 ^ (n - 1) then Inl OutOfRange
      else writeBits (int_bits n v) b)"

definition storeRef :: "cell \<Rightarrow> cell \<Rightarrow> error + cell" where
  "storeRef c b =
     (if length (cell_refs b) \<ge> 4 then Inl RefOverflow
      else Inr (Cell (cell_bits b) (cell_refs b @ [c])))"

definition storeBuffer :: "string \<Rightarrow> cell \<Rightarrow> error + cell" where
  "storeBuffer bytes b = writeBits (bytes_bits bytes) b"

text \<open>
  A string is stored as its UTF-8 bytes (a \<open>string\<close> here is the list of those bytes), in
  the snake format: as many whole bytes as the cell still has room for, the rest in a fresh
  cell that the first one references, and so on.
\<close>

function writeBuffer :: "string \<Rightarrow> cell \<Rightarrow> error + cell" where
  "writeBuffer src b =
     (if src = [] then Inr b
      else if length src > availableBits b div 8 then
        (case storeBuffer (take (availableBits b div 8) src) b of
           Inl e \<Rightarrow> Inl e
         | Inr b1 \<Rightarrow>
            (case writeBuffer (drop (availableBits b div 8) src) beginCell of
               Inl e \<Rightarrow> Inl e
             | Inr bb \<Rightarrow> storeRef bb b1))
      else storeBuffer src b)"
  by pat_completeness auto
termination
  by (relation "measure (\<lambda>(src, b). 2 * length src + (if availableBits b div 8 = 0 then 1 else 0))")
     (auto simp: beginCell_def availableBits_def)

definition storeStringTail :: "string \<Rightarrow> cell \<Rightarrow> error + cell" where
  "storeStringTail src b = writeBuffer src b"

definition storeStringRefTail :: "string \<Rightarrow> cell \<Rightarrow> error + cell" where
  "storeStringRefTail src b = bindE (storeStringTail src beginCell) (\<lambda>c. storeRef c b)"

text \<open>
  A ledger address: a workchain id and a 256-bit hash. \<^verbatim>\<open>storeAddress\<close> writes the two
  bits \<open>10\<close>, one zero bit (no anycast), the workchain as a signed 8-bit integer and the
  32 bytes of the hash.
\<close>

record Address =
  workChain :: int
  hash :: "256 word"

definition storeAddress :: "Address \<Rightarrow> cell \<Rightarrow> error + cell" where
  "storeAddress a b =
     bindE (storeUint 2 2 b) (\<lambda>b.
     bindE (storeUint 0 1 b) (\<lambda>b.
     bindE (storeInt (workChain a) 8 b) (\<lambda>b.
     writeBits (uint_bits 256 (unat (hash a))) b)))"

section \<open>The payload builders\<close>

text \<open>
  A JavaScript number as the command line produces it: \<^verbatim>\<open>parseInt\<close> returns NaN, an
  infinity (on a digit string too long for a double) or a double whose value is an integer,
  \<open>Num n\<close>. A finite number that is not an integer, which \<^verbatim>\<open>parseInt\<close> never returns,
  has no constructor. \<^verbatim>\<open>BigInt(x)\<close> throws a RangeError on NaN and on the infinities.
\<close>

datatype number = NaN | Infinity | NegInfinity | Num int

definition BigInt :: "number \<Rightarrow> error + int" where
  "BigInt x =
     (case x of
        NaN \<Rightarrow> Inl NotAnInteger
      | Infinity \<Rightarrow> Inl NotAnInteger
      | NegInfinity \<Rightarrow> Inl NotAnInteger
      | Num n \<Rightarrow> Inr n)"

text \<open>\<^verbatim>\<open>referral.live.ts\<close>, \<^verbatim>\<open>buildSetReserve\<close>.\<close>

definition buildSetReserve :: "int \<Rightarrow> error + cell" where
  "buildSetReserve minReserveNano =
     bindE (storeUint 0x5032a9ac 32 beginCell) (\<lambda>b.
     storeInt minReserveNano 257 b)"

text \<open>
  \<^verbatim>\<open>referral.live.ts\<close>, \<^verbatim>\<open>buildSignalHashPromote\<close>. \<^verbatim>\<open>Address.parse\<close> belongs to the
  ledger library; it is the parameter \<open>parseAddress\<close>, \<open>None\<close> where it throws.
\<close>

definition buildSignalHashPromote ::
  "(string \<Rightarrow> Address option) \<Rightarrow> string \<Rightarrow> string \<Rightarrow> number \<Rightarrow> error + cell" where
  "buildSignalHashPromote parseAddress memo refAddr bpsB =
     (case parseAddress refAddr of
        None \<Rightarrow> Inl BadAddress
      | Some ref \<Rightarrow>
          bindE (storeUint 0xccce9a8a 32 beginCell) (\<lambda>b.
          bindE (storeStringRefTail memo b) (\<lambda>b.
          bindE (storeAddress ref b) (\<lambda>b.
          bindE (BigInt bpsB) (\<lambda>v.
          storeInt v 257 b)))))"

text \<open>\<^verbatim>\<open>referral.deploy.ts\<close>, the test fixture \<^verbatim>\<open>GetContractMemo\<close> and its memo.\<close>

definition invoiceId :: string where
  "invoiceId = ''Invoice:03603999296428015565-7''"

definition GetContractMemo :: "int \<Rightarrow> Address \<Rightarrow> error + cell" where
  "GetContractMemo bps toB =
     bindE (storeUint 3436092042 32 beginCell) (\<lambda>b.
     bindE (storeStringRefTail invoiceId b) (\<lambda>b.
     bindE (storeAddress toB b) (\<lambda>b.
     storeInt bps 257 b)))"

text \<open>The leading 32-bit tag of a message body.\<close>

definition cell_tag :: "cell \<Rightarrow> nat" where
  "cell_tag c = bits_uint (take 32 (cell_bits c))"

section \<open>The shape of what the builders write\<close>

text \<open>
  The cell that \<^verbatim>\<open>storeStringTail\<close> builds from an empty builder: 127 bytes per cell, the
  rest behind one reference.
\<close>

function snake :: "string \<Rightarrow> cell" where
  "snake s =
     (if length s \<le> 127 then Cell (bytes_bits s) []
      else Cell (bytes_bits (take 127 s)) [snake (drop 127 s)])"
  by pat_completeness auto
termination
  by (relation "measure length") auto

definition address_bits :: "Address \<Rightarrow> bool list" where
  "address_bits a =
     uint_bits 2 2 @ uint_bits 1 0 @ int_bits 8 (workChain a) @ uint_bits 256 (unat (hash a))"

text \<open>The workchain id is a signed 8-bit field; an amount or a ratio is a signed 257-bit field.\<close>

definition valid_address :: "Address \<Rightarrow> bool" where
  "valid_address a \<longleftrightarrow> - 128 \<le> workChain a \<and> workChain a < 128"

definition fits257 :: "int \<Rightarrow> bool" where
  "fits257 v \<longleftrightarrow> - (2 ^ 256) \<le> v \<and> v < 2 ^ 256"

text \<open>A builder extends another when it holds the same bits, and maybe more after them.\<close>

definition extends :: "cell \<Rightarrow> cell \<Rightarrow> bool" where
  "extends b b' \<longleftrightarrow> take (length (cell_bits b)) (cell_bits b') = cell_bits b"

section \<open>Slices: reading a cell\<close>

text \<open>
  A slice is the part of a cell not read yet. A read past the end throws; here it is
  \<open>Inl Truncated\<close>.
\<close>

definition bits_int :: "bool list \<Rightarrow> int" where
  "bits_int bs =
     (case bs of
        [] \<Rightarrow> 0
      | sign # rest \<Rightarrow> int (bits_uint rest) - (if sign then 2 ^ length rest else 0))"

definition loadUint :: "nat \<Rightarrow> cell \<Rightarrow> error + (nat \<times> cell)" where
  "loadUint n s =
     (if length (cell_bits s) < n then Inl Truncated
      else Inr (bits_uint (take n (cell_bits s)), Cell (drop n (cell_bits s)) (cell_refs s)))"

definition loadInt :: "nat \<Rightarrow> cell \<Rightarrow> error + (int \<times> cell)" where
  "loadInt n s =
     (if length (cell_bits s) < n then Inl Truncated
      else Inr (bits_int (take n (cell_bits s)), Cell (drop n (cell_bits s)) (cell_refs s)))"

definition loadRef :: "cell \<Rightarrow> error + (cell \<times> cell)" where
  "loadRef s =
     (case cell_refs s of
        [] \<Rightarrow> Inl Truncated
      | r # rs \<Rightarrow> Inr (r, Cell (cell_bits s) rs))"

text \<open>
  \<^verbatim>\<open>loadAddress\<close>: the two bits \<open>10\<close> of a standard address, no anycast, the workchain and
  the hash.
\<close>

definition loadAddress :: "cell \<Rightarrow> error + (Address \<times> cell)" where
  "loadAddress s =
     bindE (loadUint 2 s) (\<lambda>(kind, s).
       if kind \<noteq> 2 then Inl BadAddress
       else
         bindE (loadUint 1 s) (\<lambda>(anycast, s).
           if anycast \<noteq> 0 then Inl BadAddress
           else
             bindE (loadInt 8 s) (\<lambda>(wc, s).
             bindE (loadUint 256 s) (\<lambda>(h, s).
             Inr (\<lparr>workChain = wc, hash = word_of_nat h\<rparr>, s)))))"

text \<open>
  \<^verbatim>\<open>loadStringTail\<close>: the remaining bits must be whole bytes and the slice must hold at most
  one reference, behind which the string goes on.
\<close>

fun readBuffer :: "cell \<Rightarrow> error + string" where
  "readBuffer (Cell bs []) =
     (if length bs mod 8 \<noteq> 0 then Inl InvalidString else Inr (bits_bytes bs))"
| "readBuffer (Cell bs [r]) =
     (if length bs mod 8 \<noteq> 0 then Inl InvalidString
      else bindE (readBuffer r) (\<lambda>t. Inr (bits_bytes bs @ t)))"
| "readBuffer (Cell bs (r # r' # rs)) = Inl InvalidString"

definition loadStringTail :: "cell \<Rightarrow> error + string" where
  "loadStringTail s = readBuffer s"

definition loadStringRefTail :: "cell \<Rightarrow> error + (string \<times> cell)" where
  "loadStringRefTail s =
     bindE (loadRef s) (\<lambda>(r, s).
     bindE (readBuffer r) (\<lambda>str. Inr (str, s)))"

text \<open>
  \<^verbatim>\<open>referral.deploy.ts\<close>, \<^verbatim>\<open>decodeText\<close>: a comment body (tag 0) first; when that read
  throws, or the tag is not 0, the whole body as a string.
\<close>

definition decodeText :: "cell \<Rightarrow> error + string" where
  "decodeText body =
     (case loadUint 32 body of
        Inl e \<Rightarrow> loadStringTail body
      | Inr (op, s) \<Rightarrow>
          if op = 0 then
            (case loadStringTail s of
               Inl e \<Rightarrow> loadStringTail body
             | Inr t \<Rightarrow> Inr t)
          else loadStringTail body)"

section \<open>The wire messages and their decoder\<close>

datatype payload =
    SetReserve int
  | Promote string Address int
  | PlainComment string

text \<open>
  The text comment of the ledger library, \<^verbatim>\<open>comment(text)\<close>: tag 0, then the string tail.
\<close>

definition comment :: "string \<Rightarrow> error + cell" where
  "comment text = bindE (storeUint 0 32 beginCell) (\<lambda>b. storeStringTail text b)"

text \<open>
  Modelled from the spec: the decoder of the three wire messages (the loader generated from
  the contract is not among the sources). It follows the wire-format table, which the
  message declarations quoted above \<^verbatim>\<open>buildSetReserve\<close> and \<^verbatim>\<open>buildSignalHashPromote\<close>
  repeat: a 32-bit tag, then the fields in order; an unknown tag is \<open>UnknownTag\<close>, a field
  that cannot be read is \<open>Truncated\<close>, and a negative \<open>minReserve\<close> is rejected.
\<close>

definition decode :: "cell \<Rightarrow> error + payload" where
  "decode c =
     bindE (loadUint 32 c) (\<lambda>(tag, s).
       if tag = 0x5032A9AC then
         bindE (loadInt 257 s) (\<lambda>(m, s).
           if m < 0 then Inl NegativeAmount else Inr (SetReserve m))
       else if tag = 0xCCCE9A8A then
         bindE (loadStringRefTail s) (\<lambda>(memo, s).
         bindE (loadAddress s) (\<lambda>(recipientB, s).
         bindE (loadInt 257 s) (\<lambda>(bpsB, s).
         Inr (Promote memo recipientB bpsB))))
       else if tag = 0 then
         bindE (loadStringTail s) (\<lambda>text. Inr (PlainComment text))
       else Inl UnknownTag)"

section \<open>The command line of \<^verbatim>\<open>referral.live.ts\<close>\<close>

text \<open>
  \<^verbatim>\<open>Array.prototype.indexOf\<close> (\<open>-1\<close> when absent) and indexing (\<open>undefined\<close> is \<open>None\<close>).
\<close>

fun indexOf :: "string list \<Rightarrow> string \<Rightarrow> int" where
  "indexOf [] x = - 1"
| "indexOf (y # ys) x =
     (if y = x then 0 else (let i = indexOf ys x in if i < 0 then - 1 else i + 1))"

definition elemAt :: "string list \<Rightarrow> int \<Rightarrow> string option" where
  "elemAt xs i = (if 0 \<le> i \<and> i < int (length xs) then Some (xs ! nat i) else None)"

definition getArg :: "string list \<Rightarrow> string \<Rightarrow> string option" where
  "getArg args flag = (let i = indexOf args flag in if i \<ge> 0 then elemAt args (i + 1) else None)"

text \<open>\<^verbatim>\<open>!s\<close> and \<^verbatim>\<open>s || d\<close> on a string that may be undefined: the empty string is falsy.\<close>

definition falsy :: "string option \<Rightarrow> bool" where
  "falsy s \<longleftrightarrow> s = None \<or> s = Some []"

definition orElse :: "string option \<Rightarrow> string \<Rightarrow> string" where
  "orElse s d = (case s of None \<Rightarrow> d | Some x \<Rightarrow> if x = [] then d else x)"

text \<open>\<^verbatim>\<open>bps >= 0\<close> on a number: false on NaN and on the negative infinity.\<close>

definition geq0 :: "number \<Rightarrow> bool" where
  "geq0 x =
     (case x of
        NaN \<Rightarrow> False
      | Infinity \<Rightarrow> True
      | NegInfinity \<Rightarrow> False
      | Num n \<Rightarrow> n \<ge> 0)"

text \<open>
  \<^verbatim>\<open>toNano\<close> belongs to the ledger library; it is the parameter \<open>toNano\<close>, \<open>None\<close> where
  it throws. On \<open>undefined\<close> it throws. \<^verbatim>\<open>parseInt(s, 10)\<close> belongs to the language; it is
  the parameter \<open>parseInt\<close>, so that nothing is assumed about how it skips white space or
  rounds a long digit string to a double.
\<close>

definition toNanoArg :: "(string \<Rightarrow> int option) \<Rightarrow> string option \<Rightarrow> error + int" where
  "toNanoArg toNano s =
     (case s of
        None \<Rightarrow> Inl BadAmount
      | Some x \<Rightarrow> (case toNano x of None \<Rightarrow> Inl BadAmount | Some n \<Rightarrow> Inr n))"

text \<open>
  What \<^verbatim>\<open>main\<close> does: it hands one message to \<^verbatim>\<open>sendInternal\<close> (the contract address, the
  attached amount, the body), or prints the usage. \<open>argv\<close> is \<^verbatim>\<open>process.argv.slice(2)\<close>;
  \<open>CONTRACT_ADDRESS\<close> is the environment variable (the script exits before \<^verbatim>\<open>main\<close> when
  it is empty). What \<^verbatim>\<open>sendInternal\<close> does on the network is not part of the model. Past
  the check of the promote branch \<open>memo\<close> and \<open>ref\<close> are non-empty strings, which
  \<open>orElse memo []\<close> and \<open>orElse ref []\<close> name.
\<close>

datatype outcome = SendInternal Address int cell | PrintUsage

definition main ::
  "(string \<Rightarrow> Address option) \<Rightarrow> (string \<Rightarrow> int option) \<Rightarrow> (string \<Rightarrow> number)
     \<Rightarrow> string \<Rightarrow> string list \<Rightarrow> error + outcome" where
  "main parseAddress toNano parseInt CONTRACT_ADDRESS argv =
     (let cmd = (case argv of [] \<Rightarrow> None | c # _ \<Rightarrow> Some c);
          rest = (case argv of [] \<Rightarrow> [] | _ # r \<Rightarrow> r)
      in
      case parseAddress CONTRACT_ADDRESS of
        None \<Rightarrow> Inl BadAddress
      | Some contract \<Rightarrow>
          if cmd = Some ''set-reserve'' then
            (let minIdx = indexOf rest ''--min'';
                 payIdx = indexOf rest ''--pay'';
                 minTON = (if minIdx \<ge> 0 then elemAt rest (minIdx + 1) else None);
                 payTON = (if payIdx \<ge> 0 then elemAt rest (payIdx + 1) else Some ''0.20'')
             in
             if falsy minTON then Inl MissingMin
             else
               bindE (toNanoArg toNano minTON) (\<lambda>minReserveNano.
               bindE (buildSetReserve minReserveNano) (\<lambda>body.
               bindE (toNanoArg toNano payTON) (\<lambda>valueNano.
               Inr (SendInternal contract valueNano body)))))
          else if cmd = Some ''promote'' then
            (let memo = getArg rest ''--memo'';
                 ref = getArg rest ''--ref'';
                 bps = parseInt (orElse (getArg rest ''--bps'') ''0'');
                 payTON = orElse (getArg rest ''--pay'') ''1''
             in
             if falsy memo \<or> falsy ref \<or> \<not> geq0 bps then Inl PromoteUsage
             else
               bindE (buildSignalHashPromote parseAddress (orElse memo []) (orElse ref []) bps) (\<lambda>body.
               bindE (toNanoArg toNano (Some payTON)) (\<lambda>valueNano.
               Inr (SendInternal contract valueNano body))))
          else Inr PrintUsage)"

section \<open>The settlement engine\<close>

text \<open>
  Modelled from the spec: the account state, the incoming message, the outbound transfer and
  the result of a transition. The contract that settles a payment is not among the sources
  (the tests drive its compiled form), so the engine of this section follows the
  specification of the core.
\<close>

record AccountState =
  owner :: Address
  recipientA :: Address
  minReserve :: int
  balance :: int

record IncomingMessage =
  sender :: Address
  attached :: int
  body :: payload

record Transfer =
  dest :: Address
  amount :: int
  receipt :: string

text \<open>The default ratio and payee of a payment that names none are configuration.\<close>

record Defaults =
  defaultBps :: int
  defaultRecipientB :: Address

datatype rejection = Unauthorized | InvalidSplit

datatype verdict = Rejected rejection | Accepted AccountState "Transfer list"

text \<open>\<^verbatim>\<open>MIN_PAYMENT = toNano("0.2")\<close>, in the smallest unit.\<close>

definition MIN_PAYMENT :: int where
  "MIN_PAYMENT = 200000000"

text \<open>Modelled from the spec: the authorization guard, a pure equality check on the owner.\<close>

definition isOwner :: "AccountState \<Rightarrow> Address \<Rightarrow> bool" where
  "isOwner st who \<longleftrightarrow> who = owner st"

text \<open>
  Modelled from the spec: the receipt formatter. \<open>bps/100\<close> is integer division truncated
  toward zero, printed in decimal.
\<close>

function show_nat :: "nat \<Rightarrow> string" where
  "show_nat n =
     (if n < 10 then [char_of (48 + n)]
      else show_nat (n div 10) @ [char_of (48 + n mod 10)])"
  by pat_completeness auto
termination
  by (relation "measure id") auto

definition show_int :: "int \<Rightarrow> string" where
  "show_int i = (if i < 0 then CHR ''-'' # show_nat (nat (- i)) else show_nat (nat i))"

definition trunc_div :: "int \<Rightarrow> int \<Rightarrow> int" where
  "trunc_div a b =
     (if (a < 0) = (b < 0) then \<bar>a\<bar> div \<bar>b\<bar> else - (\<bar>a\<bar> div \<bar>b\<bar>))"

definition receiptA :: "string \<Rightarrow> string" where
  "receiptA memo = memo @ '', Promote to #SignalHash''"

definition receiptB :: "string \<Rightarrow> int \<Rightarrow> string" where
  "receiptB memo bps =
     memo @ '', Referral '' @ show_int (trunc_div bps 100) @ ''% from #SignalHash''"

text \<open>
  Modelled from the spec: the distributable part of a payment of value \<open>v\<close>: \<open>v\<close> less
  what the reserve still lacks before the payment, \<open>max(0, minReserve - balance)\<close>, clamped
  at zero. This is the testable property of the spec, and what the test
  \<^verbatim>\<open>tops up reserve when below and then splits remainder\<close> computes as \<^verbatim>\<open>needed\<close> and
  \<^verbatim>\<open>distributable\<close>. (The transition rule of the spec measures the shortfall after adding
  the payment to the balance instead; with a balance of 0.25, a reserve of 0.40 and a
  payment of 1.0 that gives 1.0 where the test expects at most 0.85.)
\<close>

definition neededTopUp :: "AccountState \<Rightarrow> int" where
  "neededTopUp st = max 0 (minReserve st - balance st)"

definition distributable :: "AccountState \<Rightarrow> int \<Rightarrow> int" where
  "distributable st v = max 0 (v - neededTopUp st)"

definition amountB :: "int \<Rightarrow> int \<Rightarrow> int" where
  "amountB d bps = d * bps div 10000"

definition amountA :: "int \<Rightarrow> int \<Rightarrow> int" where
  "amountA d bps = d - amountB d bps"

text \<open>
  Modelled from the spec: a payment of value \<open>v\<close> with the ratio \<open>bps\<close>, the payee
  \<open>toB\<close> and the memo \<open>memo\<close>. Below \<open>MIN_PAYMENT\<close> the value accrues; with nothing
  distributable all of it is retained; otherwise two transfers leave and the rest stays.
\<close>

definition settle :: "AccountState \<Rightarrow> int \<Rightarrow> int \<Rightarrow> Address \<Rightarrow> string \<Rightarrow> verdict" where
  "settle st v bps toB memo =
     (if v < MIN_PAYMENT then Accepted (st\<lparr>balance := balance st + v\<rparr>) []
      else
        let d = distributable st v in
        if d = 0 then Accepted (st\<lparr>balance := balance st + v\<rparr>) []
        else
          Accepted
            (st\<lparr>balance := balance st + (v - amountA d bps - amountB d bps)\<rparr>)
            [\<lparr>dest = recipientA st, amount = amountA d bps, receipt = receiptA memo\<rparr>,
             \<lparr>dest = toB, amount = amountB d bps, receipt = receiptB memo bps\<rparr>])"

text \<open>
  Modelled from the spec: the transition function. \<open>SetReserve\<close> is for the owner only; a
  \<open>Promote\<close> whose ratio is outside \<open>[0, 10000]\<close> is rejected, not clamped; a plain comment
  is settled with the configured defaults.
\<close>

definition process :: "Defaults \<Rightarrow> AccountState \<Rightarrow> IncomingMessage \<Rightarrow> verdict" where
  "process cfg st msg =
     (case body msg of
        SetReserve m \<Rightarrow>
          if isOwner st (sender msg)
          then Accepted (st\<lparr>minReserve := m, balance := balance st + attached msg\<rparr>) []
          else Rejected Unauthorized
      | Promote memo recipientB bpsB \<Rightarrow>
          if bpsB < 0 \<or> bpsB > 10000 then Rejected InvalidSplit
          else settle st (attached msg) bpsB recipientB memo
      | PlainComment text \<Rightarrow>
          settle st (attached msg) (defaultBps cfg) (defaultRecipientB cfg) text)"

section \<open>Facts about the primitives\<close>

declare writeBuffer.simps [simp del]
declare bits_bytes.simps [simp del]
declare show_nat.simps [simp del]
declare snake.simps [simp del]

lemma bindE_simps [simp]:
  "bindE (Inl e) f = Inl e"
  "bindE (Inr x) f = f x"
  by (simp_all add: bindE_def)

lemma bindE_eq_Inr:
  "bindE r f = Inr y \<longleftrightarrow> (\<exists>x. r = Inr x \<and> f x = Inr y)"
  by (cases r) simp_all

lemma length_uint_bits [simp]: "length (uint_bits n v) = n"
  by (induction n arbitrary: v) simp_all

lemma bits_uint_Nil [simp]: "bits_uint [] = 0"
  by (simp add: bits_uint_def)

lemma bits_uint_snoc [simp]:
  "bits_uint (bs @ [b]) = 2 * bits_uint bs + (if b then 1 else 0)"
  by (simp add: bits_uint_def)

lemma bits_uint_uint_bits: "v < 2 ^ n \<Longrightarrow> bits_uint (uint_bits n v) = v"
proof (induction n arbitrary: v)
  case 0
  then show ?case by simp
next
  case (Suc n)
  from Suc.prems have "v div 2 < 2 ^ n" by simp
  then have "bits_uint (uint_bits n (v div 2)) = v div 2" by (rule Suc.IH)
  then show ?case by (cases "odd v") (auto elim: oddE)
qed

lemma length_int_bits [simp]: "0 < n \<Longrightarrow> length (int_bits n v) = n"
  by (simp add: int_bits_def Let_def)

lemma bytes_bits_Nil [simp]: "bytes_bits [] = []"
  by (simp add: bytes_bits_def)

lemma bytes_bits_Cons: "bytes_bits (c # s) = uint_bits 8 (of_char c) @ bytes_bits s"
  by (simp add: bytes_bits_def)

lemma length_bytes_bits [simp]: "length (bytes_bits s) = 8 * length s"
  by (induction s) (simp_all add: bytes_bits_def)

lemma writeBits_Inr:
  "length bs0 + length bs \<le> 1023 \<Longrightarrow> writeBits bs (Cell bs0 rs) = Inr (Cell (bs0 @ bs) rs)"
  by (simp add: writeBits_def)

lemma storeUint_Inr:
  "0 \<le> v \<Longrightarrow> v < 2 ^ n \<Longrightarrow> length bs0 + n \<le> 1023 \<Longrightarrow>
   storeUint v n (Cell bs0 rs) = Inr (Cell (bs0 @ uint_bits n (nat v)) rs)"
  by (simp add: storeUint_def writeBits_Inr)

lemma storeInt_Inr:
  "0 < n \<Longrightarrow> - (2 ^ (n - 1)) \<le> v \<Longrightarrow> v < 2 ^ (n - 1) \<Longrightarrow> length bs0 + n \<le> 1023 \<Longrightarrow>
   storeInt v n (Cell bs0 rs) = Inr (Cell (bs0 @ int_bits n v) rs)"
  by (simp add: storeInt_def writeBits_Inr)

lemma storeRef_Inr:
  "length rs < 4 \<Longrightarrow> storeRef c (Cell bs0 rs) = Inr (Cell bs0 (rs @ [c]))"
  by (simp add: storeRef_def)

lemma storeAddress_Inr:
  "- 128 \<le> workChain a \<Longrightarrow> workChain a < 128 \<Longrightarrow> length bs0 + 267 \<le> 1023 \<Longrightarrow>
   storeAddress a (Cell bs0 rs) =
     Inr (Cell (bs0 @ uint_bits 2 2 @ uint_bits 1 0 @ int_bits 8 (workChain a)
                 @ uint_bits 256 (unat (hash a))) rs)"
  by (simp add: storeAddress_def storeUint_Inr storeInt_Inr writeBits_Inr)

lemma writeBuffer_fresh: "writeBuffer s beginCell = Inr (snake s)"
proof (induction s rule: snake.induct)
  case (1 s)
  show ?case
  proof (cases "length s \<le> 127")
    case True
    then show ?thesis
      by (subst writeBuffer.simps, subst snake.simps)
         (simp add: beginCell_def availableBits_def storeBuffer_def writeBits_Inr)
  next
    case False
    with 1 have IH: "writeBuffer (drop 127 s) beginCell = Inr (snake (drop 127 s))" by simp
    from False have ne: "s \<noteq> []" by auto
    have sn: "snake s = Cell (bytes_bits (take 127 s)) [snake (drop 127 s)]"
      using False by (subst snake.simps) simp
    have av: "availableBits beginCell div 8 = 127"
      by (simp add: availableBits_def beginCell_def)
    have st: "storeBuffer (take 127 s) beginCell = Inr (Cell (bytes_bits (take 127 s)) [])"
      by (simp add: storeBuffer_def beginCell_def writeBits_Inr)
    show ?thesis
      using False ne
      by (subst writeBuffer.simps) (simp add: av st IH sn storeRef_Inr)
  qed
qed

lemma storeStringRefTail_Inr:
  "length rs < 4 \<Longrightarrow> storeStringRefTail s (Cell bs0 rs) = Inr (Cell bs0 (rs @ [snake s]))"
  by (simp add: storeStringRefTail_def storeStringTail_def writeBuffer_fresh storeRef_Inr)


lemma length_address_bits [simp]: "length (address_bits a) = 267"
  by (simp add: address_bits_def)

lemma storeAddress_Inr':
  "valid_address a \<Longrightarrow> length bs0 + 267 \<le> 1023 \<Longrightarrow>
   storeAddress a (Cell bs0 rs) = Inr (Cell (bs0 @ address_bits a) rs)"
  by (simp add: storeAddress_Inr valid_address_def address_bits_def)

lemma buildSetReserve_Inr:
  "fits257 m \<Longrightarrow>
   buildSetReserve m = Inr (Cell (uint_bits 32 0x5032a9ac @ int_bits 257 m) [])"
  by (simp add: buildSetReserve_def beginCell_def storeUint_Inr storeInt_Inr fits257_def)

lemma promote_body_Inr:
  "valid_address a \<Longrightarrow> fits257 v \<Longrightarrow>
   bindE (storeUint 0xccce9a8a 32 beginCell) (\<lambda>b.
   bindE (storeStringRefTail memo b) (\<lambda>b.
   bindE (storeAddress a b) (\<lambda>b. storeInt v 257 b))) =
   Inr (Cell (uint_bits 32 0xccce9a8a @ address_bits a @ int_bits 257 v) [snake memo])"
  by (simp add: beginCell_def storeUint_Inr storeStringRefTail_Inr storeAddress_Inr'
      storeInt_Inr fits257_def)

lemma buildSignalHashPromote_Inr:
  "parseAddress refAddr = Some a \<Longrightarrow> valid_address a \<Longrightarrow> fits257 v \<Longrightarrow>
   buildSignalHashPromote parseAddress memo refAddr (Num v) =
   Inr (Cell (uint_bits 32 0xccce9a8a @ address_bits a @ int_bits 257 v) [snake memo])"
  using promote_body_Inr [of a v memo]
  by (simp add: buildSignalHashPromote_def BigInt_def)

lemma GetContractMemo_Inr:
  "valid_address a \<Longrightarrow> fits257 v \<Longrightarrow>
   GetContractMemo v a =
   Inr (Cell (uint_bits 32 0xccce9a8a @ address_bits a @ int_bits 257 v) [snake invoiceId])"
  using promote_body_Inr [of a v invoiceId]
  by (simp add: GetContractMemo_def)

lemma extends_iff: "extends b b' \<longleftrightarrow> (\<exists>ys. cell_bits b' = cell_bits b @ ys)"
proof
  assume "extends b b'"
  then have "cell_bits b' = cell_bits b @ drop (length (cell_bits b)) (cell_bits b')"
    by (metis append_take_drop_id extends_def)
  then show "\<exists>ys. cell_bits b' = cell_bits b @ ys" ..
next
  assume "\<exists>ys. cell_bits b' = cell_bits b @ ys"
  then show "extends b b'" by (auto simp: extends_def)
qed

lemma extends_refl [simp]: "extends b b"
  by (simp add: extends_def)

lemma extends_trans: "extends a b \<Longrightarrow> extends b c \<Longrightarrow> extends a c"
  by (auto simp: extends_iff)

lemma writeBits_extends: "writeBits bs b = Inr b' \<Longrightarrow> extends b b'"
  by (auto simp: writeBits_def extends_iff split: if_splits)

lemma storeUint_extends: "storeUint v n b = Inr b' \<Longrightarrow> extends b b'"
  by (auto simp: storeUint_def split: if_splits dest: writeBits_extends)

lemma storeInt_extends: "storeInt v n b = Inr b' \<Longrightarrow> extends b b'"
  by (auto simp: storeInt_def split: if_splits dest: writeBits_extends)

lemma storeRef_extends: "storeRef c b = Inr b' \<Longrightarrow> extends b b'"
  by (auto simp: storeRef_def extends_iff split: if_splits)

lemma storeStringRefTail_extends: "storeStringRefTail s b = Inr b' \<Longrightarrow> extends b b'"
  by (auto simp: storeStringRefTail_def bindE_eq_Inr dest: storeRef_extends)

lemma storeAddress_extends: "storeAddress a b = Inr b' \<Longrightarrow> extends b b'"
  by (auto simp: storeAddress_def bindE_eq_Inr
      dest!: storeUint_extends storeInt_extends writeBits_extends intro: extends_trans)

lemma storeUint_tag:
  "storeUint v 32 beginCell = Inr b \<Longrightarrow> cell_bits b = uint_bits 32 (nat v) \<and> 0 \<le> v \<and> v < 2 ^ 32"
  by (auto simp: storeUint_def writeBits_def beginCell_def split: if_splits)

lemma tag_of_extension:
  assumes "cell_bits b = uint_bits 32 t" "t < 2 ^ 32" "extends b c"
  shows "cell_tag c = t"
proof -
  from assms(3) obtain ys where "cell_bits c = cell_bits b @ ys"
    by (auto simp: extends_iff)
  with assms(1) have "take 32 (cell_bits c) = uint_bits 32 t" by simp
  with assms(2) show ?thesis by (simp add: cell_tag_def bits_uint_uint_bits)
qed

lemma promote_body_tag:
  assumes "bindE (storeUint 0xccce9a8a 32 beginCell) (\<lambda>b.
           bindE (storeStringRefTail memo b) (\<lambda>b.
           bindE (storeAddress a b) (\<lambda>b. storeInt v 257 b))) = Inr c"
  shows "cell_tag c = 0xccce9a8a"
proof -
  from assms obtain b1 b2 b3 where
    s1: "storeUint 0xccce9a8a 32 beginCell = Inr b1" and
    s2: "storeStringRefTail memo b1 = Inr b2" and
    s3: "storeAddress a b2 = Inr b3" and
    s4: "storeInt v 257 b3 = Inr c"
    by (auto simp: bindE_eq_Inr)
  from s2 s3 s4 have "extends b1 c"
    by (blast intro: extends_trans storeStringRefTail_extends storeAddress_extends storeInt_extends)
  moreover from s1 have "cell_bits b1 = uint_bits 32 0xccce9a8a"
    using storeUint_tag [OF s1] by simp
  ultimately show ?thesis
    using tag_of_extension [of b1 "0xccce9a8a" c] by simp
qed

lemma buildSignalHashPromote_tag:
  assumes "buildSignalHashPromote parseAddress memo refAddr bpsB = Inr c"
  shows "cell_tag c = 0xccce9a8a"
proof (cases "parseAddress refAddr")
  case None
  with assms show ?thesis by (simp add: buildSignalHashPromote_def)
next
  case (Some a)
  show ?thesis
  proof (cases bpsB)
    case NaN
    with assms Some show ?thesis
      by (auto simp: buildSignalHashPromote_def BigInt_def bindE_eq_Inr)
  next
    case Infinity
    with assms Some show ?thesis
      by (auto simp: buildSignalHashPromote_def BigInt_def bindE_eq_Inr)
  next
    case NegInfinity
    with assms Some show ?thesis
      by (auto simp: buildSignalHashPromote_def BigInt_def bindE_eq_Inr)
  next
    case (Num v)
    with assms Some have
      "bindE (storeUint 0xccce9a8a 32 beginCell) (\<lambda>b.
       bindE (storeStringRefTail memo b) (\<lambda>b.
       bindE (storeAddress a b) (\<lambda>b. storeInt v 257 b))) = Inr c"
      by (simp add: buildSignalHashPromote_def BigInt_def)
    then show ?thesis by (rule promote_body_tag)
  qed
qed

lemma GetContractMemo_tag:
  "GetContractMemo bps toB = Inr c \<Longrightarrow> cell_tag c = 0xccce9a8a"
  unfolding GetContractMemo_def by (rule promote_body_tag) simp

section \<open>Facts about the command line\<close>

lemma bits_int_int_bits:
  assumes "0 < n" "- (2 ^ (n - 1)) \<le> v" "v < 2 ^ (n - 1)"
  shows "bits_int (int_bits n v) = v"
proof (cases "v < 0")
  case True
  with assms have "nat (2 ^ (n - 1) + v) < 2 ^ (n - 1)"
    by (simp add: nat_less_iff)
  then have "bits_uint (uint_bits (n - 1) (nat (2 ^ (n - 1) + v))) = nat (2 ^ (n - 1) + v)"
    by (rule bits_uint_uint_bits)
  with True assms show ?thesis
    by (simp add: bits_int_def int_bits_def Let_def)
next
  case False
  with assms have "nat v < 2 ^ (n - 1)"
    by (simp add: nat_less_iff)
  then have "bits_uint (uint_bits (n - 1) (nat v)) = nat v"
    by (rule bits_uint_uint_bits)
  with False show ?thesis
    by (simp add: bits_int_def int_bits_def Let_def)
qed

lemma bits_int_257: "fits257 v \<Longrightarrow> bits_int (int_bits 257 v) = v"
  by (rule bits_int_int_bits) (simp_all add: fits257_def)

lemma buildSetReserve_Inl: "\<not> fits257 m \<Longrightarrow> buildSetReserve m = Inl OutOfRange"
  by (auto simp: buildSetReserve_def beginCell_def storeUint_Inr storeInt_def fits257_def)

lemma main_set_reserve:
  "parseAddress c = Some contract \<Longrightarrow>
   main parseAddress toNano parseInt c (''set-reserve'' # rest) =
     (if falsy (getArg rest ''--min'') then Inl MissingMin
      else
        bindE (toNanoArg toNano (getArg rest ''--min'')) (\<lambda>m.
        bindE (buildSetReserve m) (\<lambda>body.
        bindE (toNanoArg toNano
                 (if indexOf rest ''--pay'' \<ge> 0 then getArg rest ''--pay'' else Some ''0.20''))
          (\<lambda>v. Inr (SendInternal contract v body)))))"
  by (simp add: main_def getArg_def Let_def)

lemma main_promote:
  "parseAddress c = Some contract \<Longrightarrow>
   main parseAddress toNano parseInt c (''promote'' # rest) =
     (if falsy (getArg rest ''--memo'') \<or> falsy (getArg rest ''--ref'')
         \<or> \<not> geq0 (parseInt (orElse (getArg rest ''--bps'') ''0''))
      then Inl PromoteUsage
      else
        bindE (buildSignalHashPromote parseAddress (orElse (getArg rest ''--memo'') [])
                 (orElse (getArg rest ''--ref'') [])
                 (parseInt (orElse (getArg rest ''--bps'') ''0''))) (\<lambda>body.
        bindE (toNanoArg toNano (Some (orElse (getArg rest ''--pay'') ''1''))) (\<lambda>v.
        Inr (SendInternal contract v body))))"
  by (simp add: main_def Let_def)



lemma bindE_Inl_cases:
  "bindE r f = Inl e \<Longrightarrow> r = Inl e \<or> (\<exists>x. r = Inr x \<and> f x = Inl e)"
  by (cases r) simp_all

lemma writeBits_Inl: "writeBits bs b = Inl e \<Longrightarrow> e \<in> {OutOfRange, BitOverflow, RefOverflow}"
  by (auto simp: writeBits_def split: if_splits)

lemma storeUint_Inl: "storeUint v n b = Inl e \<Longrightarrow> e \<in> {OutOfRange, BitOverflow, RefOverflow}"
  by (auto simp: storeUint_def split: if_splits dest: writeBits_Inl)

lemma storeInt_Inl: "storeInt v n b = Inl e \<Longrightarrow> e \<in> {OutOfRange, BitOverflow, RefOverflow}"
  by (auto simp: storeInt_def split: if_splits dest: writeBits_Inl)

lemma storeRef_Inl: "storeRef c b = Inl e \<Longrightarrow> e \<in> {OutOfRange, BitOverflow, RefOverflow}"
  by (auto simp: storeRef_def split: if_splits)

lemma storeStringRefTail_Inl:
  "storeStringRefTail s b = Inl e \<Longrightarrow> e \<in> {OutOfRange, BitOverflow, RefOverflow}"
  using storeRef_Inl [of "snake s" b e]
  by (simp add: storeStringRefTail_def storeStringTail_def writeBuffer_fresh)

lemma storeAddress_Inl:
  "storeAddress a b = Inl e \<Longrightarrow> e \<in> {OutOfRange, BitOverflow, RefOverflow}"
  unfolding storeAddress_def
  by (blast dest: bindE_Inl_cases storeUint_Inl storeInt_Inl writeBits_Inl)

lemma buildSetReserve_Inl_cases:
  "buildSetReserve m = Inl e \<Longrightarrow> e \<in> {OutOfRange, BitOverflow, RefOverflow}"
  unfolding buildSetReserve_def
  by (blast dest: bindE_Inl_cases storeUint_Inl storeInt_Inl)

lemma buildSignalHashPromote_Inl_cases:
  assumes "buildSignalHashPromote parseAddress memo refAddr bpsB = Inl e"
  shows "e \<in> {OutOfRange, BitOverflow, RefOverflow, NotAnInteger, BadAddress}"
proof (cases "parseAddress refAddr")
  case None
  with assms show ?thesis by (simp add: buildSignalHashPromote_def)
next
  case (Some a)
  with assms have *: "bindE (storeUint 0xccce9a8a 32 beginCell) (\<lambda>b.
          bindE (storeStringRefTail memo b) (\<lambda>b.
          bindE (storeAddress a b) (\<lambda>b.
          bindE (BigInt bpsB) (\<lambda>v.
          storeInt v 257 b)))) = Inl e"
    by (simp add: buildSignalHashPromote_def)
  have "BigInt bpsB = Inl e \<Longrightarrow> e = NotAnInteger"
    by (cases bpsB) (simp_all add: BigInt_def)
  with * have "e \<in> {OutOfRange, BitOverflow, RefOverflow} \<or> e = NotAnInteger"
    by (blast dest: bindE_Inl_cases storeUint_Inl storeStringRefTail_Inl storeAddress_Inl
        storeInt_Inl)
  then show ?thesis by auto
qed

lemma toNanoArg_Inl: "toNanoArg toNano s = Inl e \<Longrightarrow> e = BadAmount"
  by (auto simp: toNanoArg_def split: option.splits)

lemma promote_send_not_usage:
  "bindE (buildSignalHashPromote parseAddress memo refAddr bps) (\<lambda>body.
     bindE (toNanoArg toNano s) (\<lambda>v. Inr (SendInternal contract v body)))
   \<noteq> Inl PromoteUsage"
proof
  assume "bindE (buildSignalHashPromote parseAddress memo refAddr bps) (\<lambda>body.
     bindE (toNanoArg toNano s) (\<lambda>v. Inr (SendInternal contract v body))) = Inl PromoteUsage"
  then consider "buildSignalHashPromote parseAddress memo refAddr bps = Inl PromoteUsage"
    | "toNanoArg toNano s = Inl PromoteUsage"
    by (auto dest!: bindE_Inl_cases)
  then show False
  proof cases
    case 1
    from buildSignalHashPromote_Inl_cases [OF 1] show False by simp
  next
    case 2
    from toNanoArg_Inl [OF 2] show False by simp
  qed
qed

lemma set_reserve_send_not_missing:
  "bindE (toNanoArg toNano s) (\<lambda>m.
     bindE (buildSetReserve m) (\<lambda>body.
     bindE (toNanoArg toNano s') (\<lambda>v. Inr (SendInternal contract v body))))
   \<noteq> Inl MissingMin"
proof
  assume "bindE (toNanoArg toNano s) (\<lambda>m.
     bindE (buildSetReserve m) (\<lambda>body.
     bindE (toNanoArg toNano s') (\<lambda>v. Inr (SendInternal contract v body)))) = Inl MissingMin"
  then consider "toNanoArg toNano s = Inl MissingMin"
    | m where "buildSetReserve m = Inl MissingMin"
    | "toNanoArg toNano s' = Inl MissingMin"
    by (auto dest!: bindE_Inl_cases)
  then show False
  proof cases
    case 1
    from toNanoArg_Inl [OF 1] show False by simp
  next
    case 2
    from buildSetReserve_Inl_cases [OF 2] show False by simp
  next
    case 3
    from toNanoArg_Inl [OF 3] show False by simp
  qed
qed

lemma buildSignalHashPromote_Inl:
  "parseAddress refAddr = Some a \<Longrightarrow> valid_address a \<Longrightarrow> \<not> fits257 v \<Longrightarrow>
   buildSignalHashPromote parseAddress memo refAddr (Num v) = Inl OutOfRange"
  by (auto simp: buildSignalHashPromote_def BigInt_def beginCell_def storeUint_Inr
      storeStringRefTail_Inr storeAddress_Inr' storeInt_def fits257_def)

lemma storeAddress_invalid:
  "\<not> valid_address a \<Longrightarrow> length bs0 + 3 \<le> 1023 \<Longrightarrow> storeAddress a (Cell bs0 rs) = Inl OutOfRange"
  by (auto simp: storeAddress_def storeUint_Inr storeInt_def valid_address_def)

lemma buildSignalHashPromote_invalid_address:
  "parseAddress refAddr = Some a \<Longrightarrow> \<not> valid_address a \<Longrightarrow>
   buildSignalHashPromote parseAddress memo refAddr bpsB = Inl OutOfRange"
  by (simp add: buildSignalHashPromote_def beginCell_def storeUint_Inr
      storeStringRefTail_Inr storeAddress_invalid)

lemma buildSignalHashPromote_no_address:
  "parseAddress refAddr = None \<Longrightarrow>
   buildSignalHashPromote parseAddress memo refAddr bpsB = Inl BadAddress"
  by (simp add: buildSignalHashPromote_def)

lemma buildSignalHashPromote_Infinity:
  "parseAddress refAddr = Some a \<Longrightarrow> valid_address a \<Longrightarrow>
   buildSignalHashPromote parseAddress memo refAddr Infinity = Inl NotAnInteger"
  by (simp add: buildSignalHashPromote_def BigInt_def beginCell_def storeUint_Inr
      storeStringRefTail_Inr storeAddress_Inr')

lemma main_promote_infinity:
  assumes c: "parseAddress c = Some contract"
    and h: "getArg rest ''--memo'' = Some memo" "memo \<noteq> []"
      "getArg rest ''--ref'' = Some refAddr" "refAddr \<noteq> []"
      "parseInt (orElse (getArg rest ''--bps'') ''0'') = Infinity"
  shows "main parseAddress toNano parseInt c (''promote'' # rest) =
      (case parseAddress refAddr of
         None \<Rightarrow> Inl BadAddress
       | Some a \<Rightarrow> if valid_address a then Inl NotAnInteger else Inl OutOfRange)"
proof -
  note mp = main_promote [where parseAddress = parseAddress and c = c and contract = contract, OF c]
  have m: "main parseAddress toNano parseInt c (''promote'' # rest) =
      bindE (buildSignalHashPromote parseAddress memo refAddr Infinity) (\<lambda>body.
        bindE (toNanoArg toNano (Some (orElse (getArg rest ''--pay'') ''1''))) (\<lambda>v.
        Inr (SendInternal contract v body)))"
    using h by (simp add: mp falsy_def geq0_def orElse_def)
  show ?thesis
  proof (cases "parseAddress refAddr")
    case None
    then show ?thesis by (simp add: m buildSignalHashPromote_no_address)
  next
    case (Some a)
    then show ?thesis
      by (cases "valid_address a")
         (simp_all add: m buildSignalHashPromote_Infinity buildSignalHashPromote_invalid_address)
  qed
qed

lemma main_promote_checked:
  assumes c: "parseAddress c = Some contract"
    and h: "getArg rest ''--memo'' = Some memo" "memo \<noteq> []"
      "getArg rest ''--ref'' = Some refAddr" "refAddr \<noteq> []"
      "parseInt (orElse (getArg rest ''--bps'') ''0'') = Num n" "0 \<le> n"
  shows "main parseAddress toNano parseInt c (''promote'' # rest) =
      (case parseAddress refAddr of
         None \<Rightarrow> Inl BadAddress
       | Some a \<Rightarrow>
           if valid_address a \<and> n < 2 ^ 256 then
             (case toNano (orElse (getArg rest ''--pay'') ''1'') of
                None \<Rightarrow> Inl BadAmount
              | Some p \<Rightarrow>
                  Inr (SendInternal contract p
                    (Cell (uint_bits 32 0xCCCE9A8A @ address_bits a @ int_bits 257 n)
                       [snake memo])))
           else Inl OutOfRange)"
proof -
  note mp = main_promote [where parseAddress = parseAddress and c = c and contract = contract, OF c]
  have m: "main parseAddress toNano parseInt c (''promote'' # rest) =
      bindE (buildSignalHashPromote parseAddress memo refAddr (Num n)) (\<lambda>body.
        bindE (toNanoArg toNano (Some (orElse (getArg rest ''--pay'') ''1''))) (\<lambda>v.
        Inr (SendInternal contract v body)))"
    using h by (simp add: mp falsy_def geq0_def orElse_def)
  show ?thesis
  proof (cases "parseAddress refAddr")
    case None
    then show ?thesis by (simp add: m buildSignalHashPromote_no_address)
  next
    case (Some a)
    show ?thesis
    proof (cases "valid_address a")
      case False
      with Some show ?thesis by (simp add: m buildSignalHashPromote_invalid_address)
    next
      case True
      show ?thesis
      proof (cases "n < 2 ^ 256")
        case f: False
        then have "\<not> fits257 n" by (simp add: fits257_def)
        with Some True f show ?thesis by (simp add: m buildSignalHashPromote_Inl)
      next
        case t: True
        with h have "fits257 n" by (simp add: fits257_def)
        with Some True t show ?thesis
          by (simp add: m buildSignalHashPromote_Inr toNanoArg_def split: option.splits)
      qed
    qed
  qed
qed

lemma getArg_simps:
  "getArg [] flag = None"
  "getArg [x] flag = None"
  "getArg (x # y # ys) flag = (if x = flag then Some y else getArg (y # ys) flag)"
  by (auto simp: getArg_def elemAt_def Let_def nat_add_distrib)

lemma buildSetReserve_eq:
  "buildSetReserve m =
     (if fits257 m then Inr (Cell (uint_bits 32 0x5032A9AC @ int_bits 257 m) [])
      else Inl OutOfRange)"
  by (simp add: buildSetReserve_Inr buildSetReserve_Inl)

section \<open>Facts about reading back what was written\<close>

lemma bits_bytes_Nil [simp]: "bits_bytes [] = []"
  by (subst bits_bytes.simps) simp

lemma bits_bytes_bytes_bits [simp]: "bits_bytes (bytes_bits s) = s"
proof (induction s)
  case Nil
  then show ?case by simp
next
  case (Cons c s)
  have "bits_uint (uint_bits 8 (of_char c)) = of_char c"
    by (rule bits_uint_uint_bits) simp
  with Cons show ?case
    by (subst bits_bytes.simps) (simp add: bytes_bits_Cons)
qed

lemma readBuffer_snake: "readBuffer (snake s) = Inr s"
proof (induction s rule: snake.induct)
  case (1 s)
  show ?case
  proof (cases "length s \<le> 127")
    case True
    then show ?thesis by (subst snake.simps) simp
  next
    case False
    with 1 have "readBuffer (snake (drop 127 s)) = Inr (drop 127 s)" by simp
    with False show ?thesis by (subst snake.simps) simp
  qed
qed

lemma loadUint_append:
  "v < 2 ^ n \<Longrightarrow> loadUint n (Cell (uint_bits n v @ rest) rs) = Inr (v, Cell rest rs)"
  by (simp add: loadUint_def bits_uint_uint_bits)

lemma loadInt_append:
  "0 < n \<Longrightarrow> - (2 ^ (n - 1)) \<le> v \<Longrightarrow> v < 2 ^ (n - 1) \<Longrightarrow>
   loadInt n (Cell (int_bits n v @ rest) rs) = Inr (v, Cell rest rs)"
  by (simp add: loadInt_def bits_int_int_bits)

lemma loadAddress_append:
  assumes "valid_address a"
  shows "loadAddress (Cell (address_bits a @ rest) rs) = Inr (a, Cell rest rs)"
proof -
  have h: "unat (hash a) < 2 ^ 256"
    using unsigned_less [of "hash a"] by simp
  have 1: "loadUint 2 (Cell (uint_bits 2 2 @ uint_bits 1 0 @ int_bits 8 (workChain a)
              @ uint_bits 256 (unat (hash a)) @ rest) rs)
        = Inr (2, Cell (uint_bits 1 0 @ int_bits 8 (workChain a)
              @ uint_bits 256 (unat (hash a)) @ rest) rs)"
    by (rule loadUint_append) simp
  have 2: "loadUint 1 (Cell (uint_bits 1 0 @ int_bits 8 (workChain a)
              @ uint_bits 256 (unat (hash a)) @ rest) rs)
        = Inr (0, Cell (int_bits 8 (workChain a) @ uint_bits 256 (unat (hash a)) @ rest) rs)"
    by (rule loadUint_append) simp
  have 3: "loadInt 8 (Cell (int_bits 8 (workChain a) @ uint_bits 256 (unat (hash a)) @ rest) rs)
        = Inr (workChain a, Cell (uint_bits 256 (unat (hash a)) @ rest) rs)"
    using assms by (intro loadInt_append) (simp_all add: valid_address_def)
  have 4: "loadUint 256 (Cell (uint_bits 256 (unat (hash a)) @ rest) rs)
        = Inr (unat (hash a), Cell rest rs)"
    using h by (rule loadUint_append)
  have "loadAddress (Cell (address_bits a @ rest) rs) =
      Inr (\<lparr>workChain = workChain a, hash = word_of_nat (unat (hash a))\<rparr>, Cell rest rs)"
    unfolding loadAddress_def address_bits_def append_assoc
    by (simp only: 1 2 3 4 bindE_simps prod.case simp_thms if_False)
  then show ?thesis by simp
qed

lemma loadStringRefTail_snake:
  "loadStringRefTail (Cell bs (snake s # rs)) = Inr (s, Cell bs rs)"
  by (simp add: loadStringRefTail_def loadRef_def readBuffer_snake)

lemma decode_set_reserve:
  "0 \<le> m \<Longrightarrow> m < 2 ^ 256 \<Longrightarrow>
   decode (Cell (uint_bits 32 0x5032A9AC @ int_bits 257 m) []) = Inr (SetReserve m)"
  using loadInt_append [of 257 m "[]" "[]"]
  by (simp add: decode_def loadUint_append)

lemma decode_promote:
  "valid_address a \<Longrightarrow> fits257 bps \<Longrightarrow>
   decode (Cell (uint_bits 32 0xCCCE9A8A @ address_bits a @ int_bits 257 bps) [snake memo])
     = Inr (Promote memo a bps)"
  using loadInt_append [of 257 bps "[]" "[]"] loadAddress_append [of a "int_bits 257 bps" "[]"]
  by (simp add: decode_def loadUint_append loadStringRefTail_snake fits257_def)

lemma writeBuffer_after_tag:
  "writeBuffer str (Cell (uint_bits 32 0) []) =
     Inr (if length str \<le> 123 then Cell (uint_bits 32 0 @ bytes_bits str) []
          else Cell (uint_bits 32 0 @ bytes_bits (take 123 str)) [snake (drop 123 str)])"
proof -
  have av: "availableBits (Cell (uint_bits 32 0) []) div 8 = 123"
    by (simp add: availableBits_def)
  show ?thesis
  proof (cases "length str \<le> 123")
    case True
    then show ?thesis
      by (subst writeBuffer.simps) (simp add: av storeBuffer_def writeBits_Inr)
  next
    case False
    then have ne: "str \<noteq> []" by auto
    have st: "storeBuffer (take 123 str) (Cell (uint_bits 32 0) []) =
        Inr (Cell (uint_bits 32 0 @ bytes_bits (take 123 str)) [])"
      using False by (simp add: storeBuffer_def writeBits_Inr)
    show ?thesis
      using False ne
      by (subst writeBuffer.simps) (simp add: av st writeBuffer_fresh storeRef_Inr)
  qed
qed

lemma comment_Inr:
  "comment str =
     Inr (if length str \<le> 123 then Cell (uint_bits 32 0 @ bytes_bits str) []
          else Cell (uint_bits 32 0 @ bytes_bits (take 123 str)) [snake (drop 123 str)])"
  using writeBuffer_after_tag [of str]
  by (simp add: comment_def beginCell_def storeUint_Inr storeStringTail_def)

lemma readBuffer_comment_tail:
  "readBuffer (if length str \<le> 123 then Cell (bytes_bits str) []
          else Cell (bytes_bits (take 123 str)) [snake (drop 123 str)]) = Inr str"
  by (simp add: readBuffer_snake)

lemma decode_comment: "bindE (comment str) decode = Inr (PlainComment str)"
  using readBuffer_comment_tail [of str]
  by (simp add: comment_Inr decode_def loadUint_append loadStringTail_def split: if_splits)

lemma decodeText_comment: "bindE (comment str) decodeText = Inr str"
  using readBuffer_comment_tail [of str]
  by (simp add: comment_Inr decodeText_def loadUint_append loadStringTail_def split: if_splits)

section \<open>Facts about the split\<close>

lemma neededTopUp_nonneg: "0 \<le> neededTopUp st"
  by (simp add: neededTopUp_def)

lemma distributable_nonneg: "0 \<le> distributable st v"
  by (simp add: distributable_def)

lemma distributable_le: "distributable st v \<noteq> 0 \<Longrightarrow> distributable st v \<le> v"
  using neededTopUp_nonneg [of st] by (simp add: distributable_def max_def split: if_splits)

lemma amountB_bounds:
  assumes "0 \<le> d" "0 \<le> bps" "bps \<le> 10000"
  shows "0 \<le> amountB d bps" "amountB d bps \<le> d"
proof -
  from assms have "0 \<le> d * bps" by simp
  then show "0 \<le> amountB d bps" by (simp add: amountB_def pos_imp_zdiv_nonneg_iff)
  from assms have "d * bps \<le> d * 10000" by (simp add: mult_left_mono)
  then have "d * bps div 10000 \<le> d * 10000 div 10000" by (rule zdiv_mono1) simp
  then show "amountB d bps \<le> d" by (simp add: amountB_def)
qed

lemma settle_split:
  assumes "settle st v bps toB memo = Accepted st' out" "out \<noteq> []"
  shows "MIN_PAYMENT \<le> v \<and> distributable st v \<noteq> 0 \<and>
    out = [\<lparr>dest = recipientA st, amount = amountA (distributable st v) bps, receipt = receiptA memo\<rparr>,
           \<lparr>dest = toB, amount = amountB (distributable st v) bps, receipt = receiptB memo bps\<rparr>] \<and>
    st' = st\<lparr>balance := balance st
             + (v - amountA (distributable st v) bps - amountB (distributable st v) bps)\<rparr>"
  using assms by (auto simp: settle_def Let_def split: if_splits)

lemma settle_bounds:
  assumes s: "settle st v bps toB memo = Accepted st' out" "out \<noteq> []"
    and b: "0 \<le> bps" "bps \<le> 10000"
  shows "\<exists>ta tb. out = [ta, tb] \<and> 0 \<le> amount ta \<and> 0 \<le> amount tb \<and>
     amount ta + amount tb \<le> distributable st v \<and> distributable st v \<le> v \<and>
     balance st' = balance st + (v - amount ta - amount tb)"
proof -
  let ?d = "distributable st v"
  from settle_split [OF s] have
    d: "?d \<noteq> 0" and
    out: "out = [\<lparr>dest = recipientA st, amount = amountA ?d bps, receipt = receiptA memo\<rparr>,
           \<lparr>dest = toB, amount = amountB ?d bps, receipt = receiptB memo bps\<rparr>]" and
    st': "st' = st\<lparr>balance := balance st + (v - amountA ?d bps - amountB ?d bps)\<rparr>"
    by simp_all
  have d0: "0 \<le> ?d" by (rule distributable_nonneg)
  from amountB_bounds [OF d0 b] have B: "0 \<le> amountB ?d bps" "amountB ?d bps \<le> ?d" .
  then have A: "0 \<le> amountA ?d bps" "amountA ?d bps + amountB ?d bps \<le> ?d"
    by (simp_all add: amountA_def)
  from d have "?d \<le> v" by (rule distributable_le)
  with A B out st' show ?thesis by simp
qed

section \<open>The tag of the memo-bearing payment message\<close>

text \<open>
  Claim C6. Every encoder of the memo-bearing Promote message stores the same leading 32-bit
  tag, \<open>0xCCCE9A8A\<close>: whenever the live builder \<^verbatim>\<open>buildSignalHashPromote\<close> or the test
  fixture \<^verbatim>\<open>GetContractMemo\<close> returns a body, for any memo, payee and ratio, the tag of that
  body is \<open>0xCCCE9A8A\<close>, so the two tag fields are identical; and both return a body
  whenever the payee is a ledger address and the ratio fits its 257-bit field. On the
  fixture's memo the two builders are the same function, errors included. (The fixture
  writes the tag in decimal, \<open>3436092042\<close>, which is the same number.)
\<close>

theorem promote_encoders_same_tag:
  "(buildSignalHashPromote parseAddress memo refAddr bpsB = Inr c1 \<longrightarrow> cell_tag c1 = 0xCCCE9A8A) \<and>
   (GetContractMemo bps toB = Inr c2 \<longrightarrow> cell_tag c2 = 0xCCCE9A8A) \<and>
   (buildSignalHashPromote parseAddress memo refAddr bpsB = Inr c1 \<and>
    GetContractMemo bps toB = Inr c2 \<longrightarrow> cell_tag c1 = cell_tag c2) \<and>
   (parseAddress refAddr = Some toB \<and> valid_address toB \<and> fits257 bps \<longrightarrow>
      (\<exists>c. buildSignalHashPromote parseAddress memo refAddr (Num bps) = Inr c) \<and>
      (\<exists>c. GetContractMemo bps toB = Inr c)) \<and>
   (parseAddress refAddr = Some toB \<longrightarrow>
      buildSignalHashPromote parseAddress invoiceId refAddr (Num bps) = GetContractMemo bps toB)"
proof (intro conjI impI)
  assume "buildSignalHashPromote parseAddress memo refAddr bpsB = Inr c1"
  then show "cell_tag c1 = 0xCCCE9A8A" by (rule buildSignalHashPromote_tag)
next
  assume "GetContractMemo bps toB = Inr c2"
  then show "cell_tag c2 = 0xCCCE9A8A" by (rule GetContractMemo_tag)
next
  assume "buildSignalHashPromote parseAddress memo refAddr bpsB = Inr c1 \<and>
    GetContractMemo bps toB = Inr c2"
  then have "cell_tag c1 = 0xCCCE9A8A" and "cell_tag c2 = 0xCCCE9A8A"
    by (blast dest: buildSignalHashPromote_tag GetContractMemo_tag)+
  then show "cell_tag c1 = cell_tag c2" by simp
next
  assume "parseAddress refAddr = Some toB \<and> valid_address toB \<and> fits257 bps"
  then show "\<exists>c. buildSignalHashPromote parseAddress memo refAddr (Num bps) = Inr c"
    by (simp add: buildSignalHashPromote_Inr)
next
  assume "parseAddress refAddr = Some toB \<and> valid_address toB \<and> fits257 bps"
  then show "\<exists>c. GetContractMemo bps toB = Inr c"
    by (simp add: GetContractMemo_Inr)
next
  assume "parseAddress refAddr = Some toB"
  then show "buildSignalHashPromote parseAddress invoiceId refAddr (Num bps) = GetContractMemo bps toB"
    by (simp add: buildSignalHashPromote_def GetContractMemo_def BigInt_def)
qed

theorem promote_encoders_same_tag_witness:
  "\<exists>c1 c2.
     buildSignalHashPromote (\<lambda>s. Some \<lparr>workChain = 0, hash = 7\<rparr>) ''Invoice:1'' ''ref'' (Num 700) = Inr c1 \<and>
     GetContractMemo 1000 \<lparr>workChain = 0, hash = 7\<rparr> = Inr c2 \<and>
     cell_tag c1 = 0xCCCE9A8A \<and> cell_tag c2 = 0xCCCE9A8A \<and> cell_tag c1 = cell_tag c2"
proof -
  have a: "valid_address \<lparr>workChain = 0, hash = 7\<rparr>" by (simp add: valid_address_def)
  have f1: "fits257 700" and f2: "fits257 1000" by (simp_all add: fits257_def)
  obtain c1 where c1:
    "buildSignalHashPromote (\<lambda>s. Some \<lparr>workChain = 0, hash = 7\<rparr>) ''Invoice:1'' ''ref'' (Num 700) = Inr c1"
    using buildSignalHashPromote_Inr [OF _ a f1, of "\<lambda>s. Some \<lparr>workChain = 0, hash = 7\<rparr>" "''ref''"]
    by simp
  obtain c2 where c2: "GetContractMemo 1000 \<lparr>workChain = 0, hash = 7\<rparr> = Inr c2"
    using GetContractMemo_Inr [OF a f2] by simp
  show ?thesis
    using c1 c2
      promote_encoders_same_tag [of "\<lambda>s. Some \<lparr>workChain = 0, hash = 7\<rparr>" "''Invoice:1''" "''ref''"
        "Num 700" c1 1000 "\<lparr>workChain = 0, hash = 7\<rparr>" c2]
    by blast
qed

section \<open>The promote command\<close>

text \<open>
  Claim C9, as amended. With a contract address that parses, the promote command throws its
  usage error exactly when \<^verbatim>\<open>--memo\<close> or \<^verbatim>\<open>--ref\<close> is absent, has no value or an empty
  one, or the number that \<^verbatim>\<open>parseInt\<close> returns for \<^verbatim>\<open>--bps\<close> is negative or NaN. It
  enforces no upper bound of 10000 on the ratio: once those checks pass, with a parsed ratio
  \<open>n \<ge> 0\<close>, it throws only when \<^verbatim>\<open>Address.parse\<close> rejects \<^verbatim>\<open>--ref\<close>, when the workchain
  does not fit 8 bits or \<open>n\<close> does not fit the signed 257-bit field (\<open>n \<ge> 2^256\<close>), or when
  \<^verbatim>\<open>toNano\<close> rejects the amount; otherwise it hands \<^verbatim>\<open>sendInternal\<close> the body whose
  ratio field reads back as the parsed \<open>n\<close>. A parsed ratio of infinity passes the check
  and makes \<^verbatim>\<open>BigInt\<close> throw. With \<^verbatim>\<open>--bps\<close> absent or empty the string parsed is
  \<^verbatim>\<open>"0"\<close>, so the ratio is 0.
\<close>

theorem promote_cli_checks:
  "parseAddress c = Some contract \<longrightarrow>
   (main parseAddress toNano parseInt c (''promote'' # rest) = Inl PromoteUsage \<longleftrightarrow>
      falsy (getArg rest ''--memo'') \<or> falsy (getArg rest ''--ref'')
      \<or> \<not> geq0 (parseInt (orElse (getArg rest ''--bps'') ''0''))) \<and>
   (getArg rest ''--memo'' = Some memo \<and> memo \<noteq> [] \<and>
    getArg rest ''--ref'' = Some refAddr \<and> refAddr \<noteq> [] \<and>
    parseInt (orElse (getArg rest ''--bps'') ''0'') = Num n \<and> 0 \<le> n \<longrightarrow>
      main parseAddress toNano parseInt c (''promote'' # rest) =
        (case parseAddress refAddr of
           None \<Rightarrow> Inl BadAddress
         | Some a \<Rightarrow>
             if valid_address a \<and> n < 2 ^ 256 then
               (case toNano (orElse (getArg rest ''--pay'') ''1'') of
                  None \<Rightarrow> Inl BadAmount
                | Some p \<Rightarrow>
                    Inr (SendInternal contract p
                      (Cell (uint_bits 32 0xCCCE9A8A @ address_bits a @ int_bits 257 n)
                         [snake memo])))
             else Inl OutOfRange)) \<and>
   (getArg rest ''--memo'' = Some memo \<and> memo \<noteq> [] \<and>
    getArg rest ''--ref'' = Some refAddr \<and> refAddr \<noteq> [] \<and>
    parseInt (orElse (getArg rest ''--bps'') ''0'') = Infinity \<longrightarrow>
      main parseAddress toNano parseInt c (''promote'' # rest) =
        (case parseAddress refAddr of
           None \<Rightarrow> Inl BadAddress
         | Some a \<Rightarrow> if valid_address a then Inl NotAnInteger else Inl OutOfRange)) \<and>
   (0 \<le> n \<and> n < 2 ^ 256 \<longrightarrow> bits_int (int_bits 257 n) = n) \<and>
   (falsy (getArg rest ''--bps'') \<longrightarrow>
      parseInt (orElse (getArg rest ''--bps'') ''0'') = parseInt ''0'')"
proof (intro impI conjI)
  assume c: "parseAddress c = Some contract"
  show "main parseAddress toNano parseInt c (''promote'' # rest) = Inl PromoteUsage \<longleftrightarrow>
      falsy (getArg rest ''--memo'') \<or> falsy (getArg rest ''--ref'')
      \<or> \<not> geq0 (parseInt (orElse (getArg rest ''--bps'') ''0''))"
    using promote_send_not_usage [of parseAddress _ _ _ toNano _ contract]
    by (auto simp: main_promote [where parseAddress = parseAddress and c = c and contract = contract, OF c])
next
  assume c: "parseAddress c = Some contract"
  assume h: "getArg rest ''--memo'' = Some memo \<and> memo \<noteq> [] \<and>
    getArg rest ''--ref'' = Some refAddr \<and> refAddr \<noteq> [] \<and>
    parseInt (orElse (getArg rest ''--bps'') ''0'') = Num n \<and> 0 \<le> n"
  then show "main parseAddress toNano parseInt c (''promote'' # rest) =
        (case parseAddress refAddr of
           None \<Rightarrow> Inl BadAddress
         | Some a \<Rightarrow>
             if valid_address a \<and> n < 2 ^ 256 then
               (case toNano (orElse (getArg rest ''--pay'') ''1'') of
                  None \<Rightarrow> Inl BadAmount
                | Some p \<Rightarrow>
                    Inr (SendInternal contract p
                      (Cell (uint_bits 32 0xCCCE9A8A @ address_bits a @ int_bits 257 n)
                         [snake memo])))
             else Inl OutOfRange)"
    using main_promote_checked [where parseAddress = parseAddress and c = c and contract = contract, OF c]
    by blast
next
  assume c: "parseAddress c = Some contract"
  assume h: "getArg rest ''--memo'' = Some memo \<and> memo \<noteq> [] \<and>
    getArg rest ''--ref'' = Some refAddr \<and> refAddr \<noteq> [] \<and>
    parseInt (orElse (getArg rest ''--bps'') ''0'') = Infinity"
  then show "main parseAddress toNano parseInt c (''promote'' # rest) =
        (case parseAddress refAddr of
           None \<Rightarrow> Inl BadAddress
         | Some a \<Rightarrow> if valid_address a then Inl NotAnInteger else Inl OutOfRange)"
    using main_promote_infinity [where parseAddress = parseAddress and c = c and contract = contract, OF c]
    by blast
next
  assume "0 \<le> n \<and> n < 2 ^ 256"
  then have "fits257 n" by (simp add: fits257_def)
  then show "bits_int (int_bits 257 n) = n" by (rule bits_int_257)
next
  assume "falsy (getArg rest ''--bps'')"
  then show "parseInt (orElse (getArg rest ''--bps'') ''0'') = parseInt ''0''"
    by (auto simp: falsy_def orElse_def)
qed

text \<open>
  Two runs, with \<^verbatim>\<open>parseInt\<close> given on the two strings it reads: a ratio of 20000, above
  10000, is sent; with no \<^verbatim>\<open>--bps\<close> the ratio sent is 0.
\<close>

theorem promote_cli_checks_witness:
  "main [''contract'' \<mapsto> \<lparr>workChain = 0, hash = 1\<rparr>, ''payee'' \<mapsto> \<lparr>workChain = 0, hash = 2\<rparr>]
     [''1'' \<mapsto> 1000000000]
     (\<lambda>s. if s = ''20000'' then Num 20000 else if s = ''0'' then Num 0 else NaN)
     ''contract''
     [''promote'', ''--memo'', ''Invoice:1'', ''--ref'', ''payee'', ''--bps'', ''20000'']
   = Inr (SendInternal \<lparr>workChain = 0, hash = 1\<rparr> 1000000000
       (Cell (uint_bits 32 0xCCCE9A8A @ address_bits \<lparr>workChain = 0, hash = 2\<rparr>
                @ int_bits 257 20000) [snake ''Invoice:1'']))
   \<and> bits_int (int_bits 257 20000) = 20000
   \<and> main [''contract'' \<mapsto> \<lparr>workChain = 0, hash = 1\<rparr>, ''payee'' \<mapsto> \<lparr>workChain = 0, hash = 2\<rparr>]
     [''1'' \<mapsto> 1000000000]
     (\<lambda>s. if s = ''20000'' then Num 20000 else if s = ''0'' then Num 0 else NaN)
     ''contract''
     [''promote'', ''--memo'', ''Invoice:1'', ''--ref'', ''payee'']
   = Inr (SendInternal \<lparr>workChain = 0, hash = 1\<rparr> 1000000000
       (Cell (uint_bits 32 0xCCCE9A8A @ address_bits \<lparr>workChain = 0, hash = 2\<rparr>
                @ int_bits 257 0) [snake ''Invoice:1'']))"
  using promote_cli_checks [where
      parseAddress = "[''contract'' \<mapsto> \<lparr>workChain = 0, hash = 1\<rparr>, ''payee'' \<mapsto> \<lparr>workChain = 0, hash = 2\<rparr>]"
      and c = "''contract''" and contract = "\<lparr>workChain = 0, hash = 1\<rparr>"
      and toNano = "[''1'' \<mapsto> 1000000000]"
      and parseInt = "\<lambda>s. if s = ''20000'' then Num 20000 else if s = ''0'' then Num 0 else NaN"
      and rest = "[''--memo'', ''Invoice:1'', ''--ref'', ''payee'', ''--bps'', ''20000'']"
      and memo = "''Invoice:1''" and refAddr = "''payee''" and n = 20000]
    promote_cli_checks [where
      parseAddress = "[''contract'' \<mapsto> \<lparr>workChain = 0, hash = 1\<rparr>, ''payee'' \<mapsto> \<lparr>workChain = 0, hash = 2\<rparr>]"
      and c = "''contract''" and contract = "\<lparr>workChain = 0, hash = 1\<rparr>"
      and toNano = "[''1'' \<mapsto> 1000000000]"
      and parseInt = "\<lambda>s. if s = ''20000'' then Num 20000 else if s = ''0'' then Num 0 else NaN"
      and rest = "[''--memo'', ''Invoice:1'', ''--ref'', ''payee'']"
      and memo = "''Invoice:1''" and refAddr = "''payee''" and n = 0]
  by (simp add: getArg_simps orElse_def valid_address_def)

text \<open>
  The claim as first stated fails. The decimal digits of \<open>2^256\<close> are an integer that
  \<^verbatim>\<open>parseInt\<close> returns exactly (a power of two is a double). With memo and payee present
  and that non-negative ratio, the command throws, since \<open>2^256\<close> does not fit 257 bits.
\<close>

theorem promote_cli_counterexample:
  "main [''contract'' \<mapsto> \<lparr>workChain = 0, hash = 1\<rparr>, ''payee'' \<mapsto> \<lparr>workChain = 0, hash = 2\<rparr>]
     [''1'' \<mapsto> 1000000000]
     (\<lambda>s. if s = ''115792089237316195423570985008687907853269984665640564039457584007913129639936''
          then Num (2 ^ 256) else NaN)
     ''contract''
     [''promote'', ''--memo'', ''Invoice:1'', ''--ref'', ''payee'', ''--bps'',
      ''115792089237316195423570985008687907853269984665640564039457584007913129639936'']
   = Inl OutOfRange
   \<and> getArg [''--memo'', ''Invoice:1'', ''--ref'', ''payee'', ''--bps'',
      ''115792089237316195423570985008687907853269984665640564039457584007913129639936''] ''--memo''
     = Some ''Invoice:1''
   \<and> getArg [''--memo'', ''Invoice:1'', ''--ref'', ''payee'', ''--bps'',
      ''115792089237316195423570985008687907853269984665640564039457584007913129639936''] ''--ref''
     = Some ''payee''
   \<and> getArg [''--memo'', ''Invoice:1'', ''--ref'', ''payee'', ''--bps'',
      ''115792089237316195423570985008687907853269984665640564039457584007913129639936''] ''--bps''
     = Some ''115792089237316195423570985008687907853269984665640564039457584007913129639936''
   \<and> geq0 (Num (2 ^ 256))
   \<and> (115792089237316195423570985008687907853269984665640564039457584007913129639936 :: int)
       = 2 ^ 256"
proof -
  let ?P = "[''contract'' \<mapsto> \<lparr>workChain = 0, hash = 1\<rparr>, ''payee'' \<mapsto> \<lparr>workChain = 0, hash = 2\<rparr>]"
  let ?d = "''115792089237316195423570985008687907853269984665640564039457584007913129639936''"
  let ?I = "\<lambda>s. if s = ?d then Num (2 ^ 256) else NaN"
  let ?rest = "[''--memo'', ''Invoice:1'', ''--ref'', ''payee'', ''--bps'', ?d]"
  have c: "?P ''contract'' = Some \<lparr>workChain = 0, hash = 1\<rparr>" by simp
  have g: "getArg ?rest ''--memo'' = Some ''Invoice:1''" "getArg ?rest ''--ref'' = Some ''payee''"
    "getArg ?rest ''--bps'' = Some ?d"
    by (simp_all add: getArg_simps)
  have b: "?I (orElse (getArg ?rest ''--bps'') ''0'') = Num (2 ^ 256)"
    by (simp add: g orElse_def)
  have "main ?P [''1'' \<mapsto> 1000000000] ?I ''contract'' (''promote'' # ?rest) = Inl OutOfRange"
    using main_promote_checked [where parseAddress = ?P and c = "''contract''"
        and contract = "\<lparr>workChain = 0, hash = 1\<rparr>" and toNano = "[''1'' \<mapsto> 1000000000]"
        and parseInt = ?I, OF c g(1) _ g(2) _ b]
    by (simp add: valid_address_def)
  with g show ?thesis by (simp add: geq0_def)
qed

section \<open>The set-reserve builder and command\<close>

text \<open>
  Claim C10, as amended. \<^verbatim>\<open>buildSetReserve\<close> checks nothing itself: for every integer
  \<open>m\<close> that fits the signed 257-bit field, negative values included, it returns the body
  whose \<open>minReserve\<close> field reads back as \<open>m\<close>; outside that range the store throws.
  With a contract address that parses, the set-reserve command throws "Missing --min"
  exactly when \<^verbatim>\<open>--min\<close> is absent, has no value or an empty one; otherwise it sends
  whatever amount \<^verbatim>\<open>--min\<close> parses to, negative or not, provided the amount fits and the
  attached amount parses.
\<close>

theorem set_reserve_no_sign_check:
  "buildSetReserve m =
     (if fits257 m then Inr (Cell (uint_bits 32 0x5032A9AC @ int_bits 257 m) [])
      else Inl OutOfRange) \<and>
   (fits257 m \<longrightarrow> bits_int (int_bits 257 m) = m) \<and>
   (parseAddress c = Some contract \<longrightarrow>
      (main parseAddress toNano parseInt c (''set-reserve'' # rest) = Inl MissingMin \<longleftrightarrow>
         falsy (getArg rest ''--min'')) \<and>
      (getArg rest ''--min'' = Some s \<and> s \<noteq> [] \<and> toNano s = Some m \<and> fits257 m \<and>
       toNanoArg toNano
         (if indexOf rest ''--pay'' \<ge> 0 then getArg rest ''--pay'' else Some ''0.20'') = Inr p
       \<longrightarrow>
         main parseAddress toNano parseInt c (''set-reserve'' # rest) =
           Inr (SendInternal contract p
                  (Cell (uint_bits 32 0x5032A9AC @ int_bits 257 m) []))))"
proof (intro conjI impI)
  show "buildSetReserve m =
     (if fits257 m then Inr (Cell (uint_bits 32 0x5032A9AC @ int_bits 257 m) [])
      else Inl OutOfRange)"
    by (rule buildSetReserve_eq)
next
  assume "fits257 m"
  then show "bits_int (int_bits 257 m) = m" by (rule bits_int_257)
next
  assume c: "parseAddress c = Some contract"
  show "main parseAddress toNano parseInt c (''set-reserve'' # rest) = Inl MissingMin \<longleftrightarrow>
         falsy (getArg rest ''--min'')"
    using set_reserve_send_not_missing [of toNano _ _ contract]
    by (auto simp: main_set_reserve [where parseAddress = parseAddress and c = c
          and contract = contract, OF c])
next
  assume c: "parseAddress c = Some contract"
  assume "getArg rest ''--min'' = Some s \<and> s \<noteq> [] \<and> toNano s = Some m \<and> fits257 m \<and>
       toNanoArg toNano
         (if indexOf rest ''--pay'' \<ge> 0 then getArg rest ''--pay'' else Some ''0.20'') = Inr p"
  then show "main parseAddress toNano parseInt c (''set-reserve'' # rest) =
           Inr (SendInternal contract p
                  (Cell (uint_bits 32 0x5032A9AC @ int_bits 257 m) []))"
    by (simp add: main_set_reserve [where parseAddress = parseAddress and c = c
          and contract = contract, OF c] falsy_def toNanoArg_def buildSetReserve_Inr)
qed

theorem set_reserve_no_sign_check_witness:
  "fits257 (- 1000000000) \<and>
   buildSetReserve (- 1000000000) =
     Inr (Cell (uint_bits 32 0x5032A9AC @ int_bits 257 (- 1000000000)) []) \<and>
   bits_int (int_bits 257 (- 1000000000)) = - 1000000000 \<and>
   main [''contract'' \<mapsto> \<lparr>workChain = 0, hash = 1\<rparr>]
     [''-1'' \<mapsto> - 1000000000, ''0.20'' \<mapsto> 200000000] (\<lambda>s. NaN) ''contract''
     [''set-reserve'', ''--min'', ''-1'']
   = Inr (SendInternal \<lparr>workChain = 0, hash = 1\<rparr> 200000000
       (Cell (uint_bits 32 0x5032A9AC @ int_bits 257 (- 1000000000)) []))"
  using set_reserve_no_sign_check [where m = "- 1000000000"
      and parseAddress = "[''contract'' \<mapsto> \<lparr>workChain = 0, hash = 1\<rparr>]"
      and c = "''contract''" and contract = "\<lparr>workChain = 0, hash = 1\<rparr>"
      and toNano = "[''-1'' \<mapsto> - 1000000000, ''0.20'' \<mapsto> 200000000]"
      and parseInt = "\<lambda>s. NaN" and rest = "[''--min'', ''-1'']" and s = "''-1''"
      and p = 200000000]
  by (simp add: getArg_simps fits257_def toNanoArg_def)

text \<open>The claim as first stated fails: \<open>2^256\<close> is an integer that is not encoded.\<close>

theorem set_reserve_counterexample:
  "buildSetReserve (2 ^ 256) = Inl OutOfRange"
  by (rule buildSetReserve_Inl) (simp add: fits257_def)

section \<open>Round trip of the wire messages\<close>

text \<open>
  Claim C8. For each of the three wire messages and all field values in the declared ranges,
  decoding the encoded message gives the message back: a \<open>SetReserve\<close> of a non-negative
  amount that fits the 257-bit field, encoded by \<^verbatim>\<open>buildSetReserve\<close>; a \<open>Promote\<close> with
  any memo bytes, a ledger address and a ratio in \<open>[0, 10000]\<close>, encoded by
  \<^verbatim>\<open>buildSignalHashPromote\<close> or by the fixture \<^verbatim>\<open>GetContractMemo\<close>; a plain comment with any
  text, which \<^verbatim>\<open>decodeText\<close> of the tests reads back as well.
\<close>

theorem wire_round_trip:
  "(0 \<le> m \<and> m < 2 ^ 256 \<longrightarrow> bindE (buildSetReserve m) decode = Inr (SetReserve m)) \<and>
   (parseAddress refAddr = Some a \<and> valid_address a \<and> 0 \<le> bps \<and> bps \<le> 10000 \<longrightarrow>
      bindE (buildSignalHashPromote parseAddress memo refAddr (Num bps)) decode
        = Inr (Promote memo a bps)) \<and>
   (valid_address a \<and> 0 \<le> bps \<and> bps \<le> 10000 \<longrightarrow>
      bindE (GetContractMemo bps a) decode = Inr (Promote invoiceId a bps)) \<and>
   bindE (comment str) decode = Inr (PlainComment str) \<and>
   bindE (comment str) decodeText = Inr str"
proof (intro conjI impI)
  assume "0 \<le> m \<and> m < 2 ^ 256"
  then show "bindE (buildSetReserve m) decode = Inr (SetReserve m)"
    by (simp add: buildSetReserve_Inr fits257_def decode_set_reserve)
next
  assume h: "parseAddress refAddr = Some a \<and> valid_address a \<and> 0 \<le> bps \<and> bps \<le> 10000"
  then have "fits257 bps" by (simp add: fits257_def)
  with h show "bindE (buildSignalHashPromote parseAddress memo refAddr (Num bps)) decode
        = Inr (Promote memo a bps)"
    by (simp add: buildSignalHashPromote_Inr decode_promote)
next
  assume h: "valid_address a \<and> 0 \<le> bps \<and> bps \<le> 10000"
  then have "fits257 bps" by (simp add: fits257_def)
  with h show "bindE (GetContractMemo bps a) decode = Inr (Promote invoiceId a bps)"
    by (simp add: GetContractMemo_Inr decode_promote)
next
  show "bindE (comment str) decode = Inr (PlainComment str)" by (rule decode_comment)
next
  show "bindE (comment str) decodeText = Inr str" by (rule decodeText_comment)
qed

theorem wire_round_trip_witness:
  "bindE (buildSetReserve 400000000) decode = Inr (SetReserve 400000000) \<and>
   bindE (buildSignalHashPromote [''payee'' \<mapsto> \<lparr>workChain = 0, hash = 2\<rparr>] ''Invoice:1''
            ''payee'' (Num 700)) decode
     = Inr (Promote ''Invoice:1'' \<lparr>workChain = 0, hash = 2\<rparr> 700) \<and>
   bindE (GetContractMemo 700 \<lparr>workChain = 0, hash = 2\<rparr>) decode
     = Inr (Promote invoiceId \<lparr>workChain = 0, hash = 2\<rparr> 700) \<and>
   bindE (comment ''hello'') decode = Inr (PlainComment ''hello'')"
  using wire_round_trip [of 400000000 "[''payee'' \<mapsto> \<lparr>workChain = 0, hash = 2\<rparr>]" "''payee''"
      "\<lparr>workChain = 0, hash = 2\<rparr>" 700 "''Invoice:1''" "''hello''"]
  by (simp add: valid_address_def)

section \<open>The split never forwards more than it received\<close>

text \<open>
  Claim C2. For every split the engine performs, on any state and any incoming payment (a
  \<open>Promote\<close>, or a plain comment under a configured default ratio in \<open>[0, 10000]\<close>), both
  legs are non-negative and \<open>amountA + amountB \<le> distributable \<le> value\<close>: the engine never
  forwards more than the attached value. The account keeps the rest.
\<close>

theorem split_within_attached_value:
  assumes "process cfg st msg = Accepted st' out" and "out \<noteq> []"
    and "0 \<le> defaultBps cfg" and "defaultBps cfg \<le> 10000"
  shows "\<exists>ta tb. out = [ta, tb] \<and> 0 \<le> amount ta \<and> 0 \<le> amount tb \<and>
     amount ta + amount tb \<le> distributable st (attached msg) \<and>
     distributable st (attached msg) \<le> attached msg \<and>
     balance st' = balance st + (attached msg - amount ta - amount tb)"
proof (cases "body msg")
  case (SetReserve m)
  with assms show ?thesis by (auto simp: process_def split: if_splits)
next
  case (Promote memo recipientB bpsB)
  with assms(1) have b: "0 \<le> bpsB" "bpsB \<le> 10000"
    and s: "settle st (attached msg) bpsB recipientB memo = Accepted st' out"
    by (auto simp: process_def split: if_splits)
  from settle_bounds [OF s assms(2) b] show ?thesis .
next
  case (PlainComment str)
  with assms(1) have
    s: "settle st (attached msg) (defaultBps cfg) (defaultRecipientB cfg) str = Accepted st' out"
    by (simp add: process_def)
  from settle_bounds [OF s assms(2) assms(3) assms(4)] show ?thesis .
qed

theorem split_within_attached_value_witness:
  "process \<lparr>defaultBps = 700, defaultRecipientB = \<lparr>workChain = 0, hash = 3\<rparr>\<rparr>
     \<lparr>owner = \<lparr>workChain = 0, hash = 0\<rparr>, recipientA = \<lparr>workChain = 0, hash = 1\<rparr>,
      minReserve = 400000000, balance = 250000000\<rparr>
     \<lparr>sender = \<lparr>workChain = 0, hash = 9\<rparr>, attached = 1000000000,
      body = Promote ''Invoice:1'' \<lparr>workChain = 0, hash = 2\<rparr> 1000\<rparr>
   = Accepted
       \<lparr>owner = \<lparr>workChain = 0, hash = 0\<rparr>, recipientA = \<lparr>workChain = 0, hash = 1\<rparr>,
        minReserve = 400000000, balance = 400000000\<rparr>
       [\<lparr>dest = \<lparr>workChain = 0, hash = 1\<rparr>, amount = 765000000,
         receipt = receiptA ''Invoice:1''\<rparr>,
        \<lparr>dest = \<lparr>workChain = 0, hash = 2\<rparr>, amount = 85000000,
         receipt = receiptB ''Invoice:1'' 1000\<rparr>]
   \<and> (765000000 :: int) + 85000000
       \<le> distributable \<lparr>owner = \<lparr>workChain = 0, hash = 0\<rparr>,
            recipientA = \<lparr>workChain = 0, hash = 1\<rparr>,
            minReserve = 400000000, balance = 250000000\<rparr> 1000000000
   \<and> distributable \<lparr>owner = \<lparr>workChain = 0, hash = 0\<rparr>,
            recipientA = \<lparr>workChain = 0, hash = 1\<rparr>,
            minReserve = 400000000, balance = 250000000\<rparr> 1000000000 \<le> 1000000000"
proof -
  let ?cfg = "\<lparr>defaultBps = 700, defaultRecipientB = \<lparr>workChain = 0, hash = 3\<rparr>\<rparr>"
  let ?st = "\<lparr>owner = \<lparr>workChain = 0, hash = 0\<rparr>, recipientA = \<lparr>workChain = 0, hash = 1\<rparr>,
      minReserve = 400000000, balance = 250000000\<rparr>"
  let ?msg = "\<lparr>sender = \<lparr>workChain = 0, hash = 9\<rparr>, attached = 1000000000,
      body = Promote ''Invoice:1'' \<lparr>workChain = 0, hash = 2\<rparr> 1000\<rparr>"
  let ?st' = "\<lparr>owner = \<lparr>workChain = 0, hash = 0\<rparr>, recipientA = \<lparr>workChain = 0, hash = 1\<rparr>,
        minReserve = 400000000, balance = 400000000\<rparr>"
  let ?out = "[\<lparr>dest = \<lparr>workChain = 0, hash = 1\<rparr>, amount = 765000000,
         receipt = receiptA ''Invoice:1''\<rparr>,
        \<lparr>dest = \<lparr>workChain = 0, hash = 2\<rparr>, amount = 85000000,
         receipt = receiptB ''Invoice:1'' 1000\<rparr>]"
  have p: "process ?cfg ?st ?msg = Accepted ?st' ?out"
    by (simp add: process_def settle_def distributable_def neededTopUp_def amountA_def
        amountB_def MIN_PAYMENT_def Let_def)
  have "?out \<noteq> []" by simp
  from split_within_attached_value [OF p this] p show ?thesis by simp
qed

end
